theory Spec2Isabelle
  imports Main "HOL-Library.Char_ord" "HOL-Library.List_Lexorder" "HOL-Library.Multiset"
begin

section \<open>Python values, exceptions and results\<close>

text \<open>
  The appointment scheduler of \<^verbatim>\<open>app.py\<close> keeps a module-level list of dictionaries and
  rewrites a spreadsheet after every change. The values that flow through it (JSON fields of
  a request, cells of the spreadsheet, values of an appointment dictionary) are dynamically
  typed; the model covers \<^verbatim>\<open>None\<close>, text and integers. Text is a list of characters,
  one \<open>char\<close> per code point below 256.
\<close>

datatype pyval = PNone | PStr string | PInt int

text \<open>Python truth value, as used by \<^verbatim>\<open>not row[0]\<close>.\<close>

fun truthy :: "pyval \<Rightarrow> bool" where
  "truthy PNone = False"
| "truthy (PStr s) = (s \<noteq> [])"
| "truthy (PInt i) = (i \<noteq> 0)"

datatype exn =
  KeyError | TypeError | ValueError | AttributeError
  | OSError | FileExistsError | BadZipFile | IllegalCharacterError

datatype 'a result = Returned 'a | Raised exn

section \<open>Configuration\<close>

definition EXCEL_FILE :: string where
  "EXCEL_FILE = ''appointments.xlsx''"

definition MAX_PER_HOUR :: nat where
  "MAX_PER_HOUR = 4"

definition DATETIME_FORMAT :: string where
  "DATETIME_FORMAT = ''%Y-%m-%dT%H:%M''"

definition HEADERS :: "string list" where
  "HEADERS = [''id'', ''name'', ''address'', ''reason'', ''datetime'', ''created_at'']"

section \<open>Appointments\<close>

text \<open>
  An appointment is a dictionary. It is built either by \<^verbatim>\<open>dict(zip(HEADERS, row))\<close> or by
  the literal in the POST handler, so its keys come in the order of \<open>HEADERS\<close> and are
  distinct; it is modelled as the association list of its items. \<^verbatim>\<open>a[k]\<close> raises
  \<^verbatim>\<open>KeyError\<close> on a missing key.
\<close>

type_synonym appt = "(string \<times> pyval) list"

definition getitem :: "appt \<Rightarrow> string \<Rightarrow> exn + pyval" where
  "getitem a k = (case map_of a k of None \<Rightarrow> Inl KeyError | Some v \<Rightarrow> Inr v)"

section \<open>Parsed date-times\<close>

text \<open>
  \<^verbatim>\<open>datetime.fromisoformat\<close> belongs to the Python standard library, and the set of strings
  it accepts depends on the interpreter's version. The program's functions therefore take
  the parser as their first argument \<open>parse\<close>: it returns \<open>None\<close> where
  \<^verbatim>\<open>fromisoformat\<close> raises \<^verbatim>\<open>ValueError\<close>, and the fields of the date-time otherwise.
  Only the fields \<open>year\<close>, \<open>month\<close>, \<open>day\<close> and \<open>hour\<close> are ever read by the program.
\<close>

record datetime =
  year :: int
  month :: int
  day :: int
  hour :: int
  minute :: int
  second :: int

type_synonym parser = "string \<Rightarrow> datetime option"

type_synonym bucket = "int \<times> int \<times> int \<times> int"

definition bucket :: "datetime \<Rightarrow> bucket" where
  "bucket dt = (year dt, month dt, day dt, hour dt)"

text \<open>
  A call \<^verbatim>\<open>datetime.fromisoformat(v)\<close> on a Python value: \<^verbatim>\<open>TypeError\<close> when \<open>v\<close> is
  not a string, \<^verbatim>\<open>ValueError\<close> when it does not parse.
\<close>

definition fromisoformat :: "parser \<Rightarrow> pyval \<Rightarrow> exn + datetime" where
  "fromisoformat parse v =
     (case v of
        PStr s \<Rightarrow> (case parse s of None \<Rightarrow> Inl ValueError | Some dt \<Rightarrow> Inr dt)
      | _ \<Rightarrow> Inl TypeError)"

section \<open>Counting the appointments of an hour\<close>

text \<open>
  The loop of \<^verbatim>\<open>count_in_hour\<close>, with its counter \<^verbatim>\<open>count\<close> as the accumulator
  \<open>cnt\<close>. Both statements of the
  \<^verbatim>\<open>try\<close> body can raise (\<^verbatim>\<open>a["datetime"]\<close> and \<^verbatim>\<open>fromisoformat\<close>); the handler
  \<^verbatim>\<open>except Exception: continue\<close> goes on with the next appointment.
\<close>

fun count_loop :: "parser \<Rightarrow> datetime \<Rightarrow> appt list \<Rightarrow> nat \<Rightarrow> nat" where
  "count_loop parse dt [] cnt = cnt"
| "count_loop parse dt (a # as) cnt =
     (case getitem a ''datetime'' of
        Inl e \<Rightarrow> count_loop parse dt as cnt
      | Inr v \<Rightarrow>
          (case fromisoformat parse v of
             Inl e \<Rightarrow> count_loop parse dt as cnt
           | Inr adt \<Rightarrow>
               if bucket adt = bucket dt
               then count_loop parse dt as (cnt + 1)
               else count_loop parse dt as cnt))"

definition count_in_hour :: "parser \<Rightarrow> appt list \<Rightarrow> pyval \<Rightarrow> nat" where
  "count_in_hour parse appointments dt_iso =
     (case fromisoformat parse dt_iso of
        Inl e \<Rightarrow> 0
      | Inr dt \<Rightarrow> count_loop parse dt appointments 0)"

text \<open>
  The words of the specification: the bucket of a record is the (year, month, day, hour) of
  its parsed \<open>scheduled_at\<close>; a record whose \<open>scheduled_at\<close> is missing, is not text or does
  not parse has no bucket.
\<close>

definition bucket_of :: "parser \<Rightarrow> appt \<Rightarrow> bucket option" where
  "bucket_of parse a =
     (case map_of a ''datetime'' of
        Some (PStr s) \<Rightarrow> map_option bucket (parse s)
      | _ \<Rightarrow> None)"

definition in_bucket :: "parser \<Rightarrow> bucket \<Rightarrow> appt list \<Rightarrow> appt list" where
  "in_bucket parse b appointments = filter (\<lambda>a. bucket_of parse a = Some b) appointments"

section \<open>A parser instance for concrete inputs\<close>

text \<open>
  To evaluate the program on concrete requests, \<open>iso_core\<close> parses the strings on which every
  release of \<^verbatim>\<open>datetime.fromisoformat\<close> agrees: a date \<^verbatim>\<open>YYYY-MM-DD\<close>, alone or followed
  by one separator character and \<^verbatim>\<open>HH:MM\<close> or \<^verbatim>\<open>HH:MM:SS\<close>. It rejects everything else
  (fractions of a second, UTC offsets and the further ISO 8601 forms of later releases); no
  general theorem below depends on it.
\<close>

definition digit_of :: "char \<Rightarrow> int option" where
  "digit_of c =
     (if CHR ''0'' \<le> c \<and> c \<le> CHR ''9'' then Some (int (of_char c) - 48) else None)"

fun number_of :: "string \<Rightarrow> int \<Rightarrow> int option" where
  "number_of [] acc = Some acc"
| "number_of (c # cs) acc =
     (case digit_of c of None \<Rightarrow> None | Some d \<Rightarrow> number_of cs (10 * acc + d))"

definition is_leap :: "int \<Rightarrow> bool" where
  "is_leap y = (y mod 4 = 0 \<and> (y mod 100 \<noteq> 0 \<or> y mod 400 = 0))"

definition days_in_month :: "int \<Rightarrow> int \<Rightarrow> int" where
  "days_in_month y m =
     (if m = 2 then (if is_leap y then 29 else 28)
      else if m = 4 \<or> m = 6 \<or> m = 9 \<or> m = 11 then 30 else 31)"

definition make_datetime :: "int \<Rightarrow> int \<Rightarrow> int \<Rightarrow> int \<Rightarrow> int \<Rightarrow> int \<Rightarrow> datetime option" where
  "make_datetime y mo d h mi s =
     (if 1 \<le> y \<and> y \<le> 9999 \<and> 1 \<le> mo \<and> mo \<le> 12 \<and> 1 \<le> d \<and> d \<le> days_in_month y mo
         \<and> 0 \<le> h \<and> h < 24 \<and> 0 \<le> mi \<and> mi < 60 \<and> 0 \<le> s \<and> s < 60
      then Some \<lparr>year = y, month = mo, day = d, hour = h, minute = mi, second = s\<rparr>
      else None)"

definition parse_date :: "string \<Rightarrow> (int \<times> int \<times> int) option" where
  "parse_date s =
     (case s of
        [y1, y2, y3, y4, s1, m1, m2, s2, d1, d2] \<Rightarrow>
          (if s1 = CHR ''-'' \<and> s2 = CHR ''-'' then
             (case (number_of [y1, y2, y3, y4] 0, number_of [m1, m2] 0, number_of [d1, d2] 0) of
                (Some y, Some m, Some d) \<Rightarrow> Some (y, m, d)
              | _ \<Rightarrow> None)
           else None)
      | _ \<Rightarrow> None)"

definition parse_time :: "string \<Rightarrow> (int \<times> int \<times> int) option" where
  "parse_time s =
     (case s of
        [h1, h2, c1, m1, m2] \<Rightarrow>
          (if c1 = CHR '':'' then
             (case (number_of [h1, h2] 0, number_of [m1, m2] 0) of
                (Some h, Some m) \<Rightarrow> Some (h, m, 0)
              | _ \<Rightarrow> None)
           else None)
      | [h1, h2, c1, m1, m2, c2, s1, s2] \<Rightarrow>
          (if c1 = CHR '':'' \<and> c2 = CHR '':'' then
             (case (number_of [h1, h2] 0, number_of [m1, m2] 0, number_of [s1, s2] 0) of
                (Some h, Some m, Some s) \<Rightarrow> Some (h, m, s)
              | _ \<Rightarrow> None)
           else None)
      | _ \<Rightarrow> None)"

definition iso_core :: parser where
  "iso_core s =
     (case parse_date (take 10 s) of
        None \<Rightarrow> None
      | Some (y, mo, d) \<Rightarrow>
          if length s = 10 then make_datetime y mo d 0 0 0
          else (case parse_time (drop 11 s) of
                  None \<Rightarrow> None
                | Some (h, mi, sec) \<Rightarrow> make_datetime y mo d h mi sec))"

section \<open>The file system and the world around a request\<close>

text \<open>
  A path is a directory and a file name. A file holds either a workbook, modelled as the rows
  of its active sheet, or something that is not a workbook (the empty file that
  \<^verbatim>\<open>mkstemp\<close> creates, or what an interrupted write leaves behind).
\<close>

type_synonym path = "string \<times> string"

datatype filedata = NotWorkbook | Workbook "pyval list list"

record state =
  appointments :: "appt list"
  files :: "path \<rightharpoonup> filedata"

text \<open>
  What a request takes from outside the program: the identifier \<^verbatim>\<open>str(uuid.uuid4())\<close>,
  the clock \<^verbatim>\<open>datetime.utcnow().isoformat()\<close>, the default temporary directory of
  \<^verbatim>\<open>tempfile\<close>, the working directory against which the relative \<open>EXCEL_FILE\<close> is
  resolved, the random part of the name \<^verbatim>\<open>mkstemp\<close> picks, and whether each of the three
  file-system calls of \<^verbatim>\<open>save_excel\<close> fails.
\<close>

record env =
  uuid4 :: string
  utcnow :: string
  tempdir :: string
  cwd :: string
  rand_name :: string
  mkstemp_raises :: bool
  wb_save_raises :: bool
  replace_raises :: bool

definition tmp_path :: "env \<Rightarrow> path" where
  "tmp_path e = (tempdir e, ''appts-'' @ rand_name e @ ''.xlsx'')"

definition target_path :: "env \<Rightarrow> path" where
  "target_path e = (cwd e, EXCEL_FILE)"

section \<open>Saving\<close>

text \<open>\<^verbatim>\<open>[a[h] for h in HEADERS]\<close>: the first missing key raises \<^verbatim>\<open>KeyError\<close>.\<close>

fun row_of :: "appt \<Rightarrow> string list \<Rightarrow> exn + pyval list" where
  "row_of a [] = Inr []"
| "row_of a (h # hs) =
     (case getitem a h of
        Inl e \<Rightarrow> Inl e
      | Inr v \<Rightarrow> (case row_of a hs of Inl e \<Rightarrow> Inl e | Inr vs \<Rightarrow> Inr (v # vs)))"

text \<open>
  \<^verbatim>\<open>ws.append(row)\<close> binds every value to a cell. The spreadsheet library checks a text
  value on the way: it keeps at most 32767 characters of it, and raises
  \<^verbatim>\<open>IllegalCharacterError\<close> when what is kept contains a control character other than
  tab, line feed and carriage return (code points 0 to 8, 11, 12 and 14 to 31). Other values
  are bound as they are.
\<close>

definition illegal_char :: "char \<Rightarrow> bool" where
  "illegal_char c =
     (let n = (of_char c :: nat) in n \<le> 8 \<or> n = 11 \<or> n = 12 \<or> (14 \<le> n \<and> n \<le> 31))"

definition check_string :: "string \<Rightarrow> exn + string" where
  "check_string s =
     (let t = take 32767 s in
      if list_ex illegal_char t then Inl IllegalCharacterError else Inr t)"

fun bind_value :: "pyval \<Rightarrow> exn + pyval" where
  "bind_value (PStr s) = (case check_string s of Inl e \<Rightarrow> Inl e | Inr t \<Rightarrow> Inr (PStr t))"
| "bind_value v = Inr v"

fun ws_append :: "pyval list \<Rightarrow> exn + pyval list" where
  "ws_append [] = Inr []"
| "ws_append (v # vs) =
     (case bind_value v of
        Inl e \<Rightarrow> Inl e
      | Inr c \<Rightarrow> (case ws_append vs of Inl e \<Rightarrow> Inl e | Inr cs \<Rightarrow> Inr (c # cs)))"

text \<open>
  The loop \<^verbatim>\<open>for a in appointments: ws.append([a[h] for h in HEADERS])\<close>: the rows of
  cells it adds to the sheet, or the first exception.
\<close>

fun rows_of :: "appt list \<Rightarrow> exn + pyval list list" where
  "rows_of [] = Inr []"
| "rows_of (a # as) =
     (case row_of a HEADERS of
        Inl e \<Rightarrow> Inl e
      | Inr r \<Rightarrow>
          (case ws_append r of
             Inl e \<Rightarrow> Inl e
           | Inr cells \<Rightarrow>
               (case rows_of as of Inl e \<Rightarrow> Inl e | Inr rs \<Rightarrow> Inr (cells # rs))))"

text \<open>
  \<^verbatim>\<open>save_excel\<close>: the workbook is built in memory (header row, then one row per
  appointment; a missing key or a rejected text raises here, before any file is touched),
  \<^verbatim>\<open>mkstemp\<close> creates an empty file under a name that must not exist,
  \<^verbatim>\<open>wb.save\<close> writes the workbook there, and \<^verbatim>\<open>os.replace\<close> moves it over the target.
  \<^verbatim>\<open>mkstemp\<close> is called without \<^verbatim>\<open>dir\<close>, so the file is created in the default
  temporary directory. The environment supplies the name that \<^verbatim>\<open>mkstemp\<close> ends up
  with; a name that is already taken makes the call fail, as \<^verbatim>\<open>mkstemp\<close> does when it
  finds no free name. A failed \<^verbatim>\<open>wb.save\<close> leaves the temporary file behind with
  whatever was written, and a failed \<^verbatim>\<open>os.replace\<close> leaves both files as they are.
\<close>

definition save_excel :: "env \<Rightarrow> state \<Rightarrow> unit result \<times> state" where
  "save_excel e st =
     (case rows_of (appointments st) of
        Inl x \<Rightarrow> (Raised x, st)
      | Inr rows \<Rightarrow>
          if mkstemp_raises e then (Raised OSError, st)
          else if files st (tmp_path e) \<noteq> None then (Raised FileExistsError, st)
          else
            let st1 = st\<lparr>files := (files st)(tmp_path e \<mapsto> NotWorkbook)\<rparr> in
            if wb_save_raises e then (Raised OSError, st1)
            else
              let wb = Workbook (map PStr HEADERS # rows);
                  st2 = st1\<lparr>files := (files st1)(tmp_path e \<mapsto> wb)\<rparr>
              in
              if replace_raises e then (Raised OSError, st2)
              else (Returned (),
                    st2\<lparr>files := ((files st2)(tmp_path e := None))(target_path e \<mapsto> wb)\<rparr>))"

section \<open>Loading\<close>

text \<open>
  The loop over \<^verbatim>\<open>ws.iter_rows(min_row=2, values_only=True)\<close>: an empty row and a row
  whose first cell is falsy are skipped; \<^verbatim>\<open>zip\<close> stops at the shorter of \<open>HEADERS\<close> and
  the row.
\<close>

fun load_rows :: "pyval list list \<Rightarrow> appt list" where
  "load_rows [] = []"
| "load_rows ([] # rows) = load_rows rows"
| "load_rows ((c # cs) # rows) =
     (if \<not> truthy c then load_rows rows else zip HEADERS (c # cs) # load_rows rows)"

text \<open>
  \<^verbatim>\<open>load_excel\<close>. The spreadsheet library decides which value it returns for a cell;
  \<open>cell_read\<close> stands for that decoding of a stored cell. An empty file, as
  \<^verbatim>\<open>mkstemp\<close> leaves it, is not a zip archive and \<^verbatim>\<open>load_workbook\<close> raises
  \<^verbatim>\<open>BadZipFile\<close>.
\<close>

definition load_excel :: "(pyval \<Rightarrow> pyval) \<Rightarrow> env \<Rightarrow> state \<Rightarrow> unit result \<times> state" where
  "load_excel cell_read e st =
     (let st0 = st\<lparr>appointments := []\<rparr> in
      case files st (target_path e) of
        None \<Rightarrow> (Returned (), st0)
      | Some NotWorkbook \<Rightarrow> (Raised BadZipFile, st0)
      | Some (Workbook rows) \<Rightarrow>
          (Returned (), st0\<lparr>appointments := load_rows (map (map cell_read) (drop 1 rows))\<rparr>))"

text \<open>
  The decoding of the library in use: a cell whose value is \<^verbatim>\<open>None\<close> or the empty
  string is written as an empty cell, and an empty cell is read as \<^verbatim>\<open>None\<close>; text
  that is not empty and integers are read as they were bound.
\<close>

definition blank_as_none :: "pyval \<Rightarrow> pyval" where
  "blank_as_none v = (if v = PStr [] then PNone else v)"

section \<open>The request handlers\<close>

datatype body =
  JAppointments "appt list"
  | JAppointment appt
  | JError string
  | JOk

text \<open>A response: the HTTP status and the JSON body.\<close>

datatype response = Response nat body

text \<open>
  \<^verbatim>\<open>str.strip()\<close> removes the white space at both ends; below 256 the white-space
  characters of Python are 9 to 13, 28 to 32, 133 and 160.
\<close>

definition is_space :: "char \<Rightarrow> bool" where
  "is_space c =
     (let n = (of_char c :: nat) in (9 \<le> n \<and> n \<le> 13) \<or> (28 \<le> n \<and> n \<le> 32) \<or> n = 133 \<or> n = 160)"

definition strip :: "string \<Rightarrow> string" where
  "strip s = rev (dropWhile is_space (rev (dropWhile is_space s)))"

text \<open>\<^verbatim>\<open>data.get(k, "").strip()\<close>: a value that is not a string has no \<^verbatim>\<open>strip\<close>.\<close>

definition get_strip :: "(string \<rightharpoonup> pyval) \<Rightarrow> string \<Rightarrow> exn + string" where
  "get_strip data k =
     (case data k of
        None \<Rightarrow> Inr (strip [])
      | Some (PStr s) \<Rightarrow> Inr (strip s)
      | Some _ \<Rightarrow> Inl AttributeError)"

text \<open>The decimal digits of a number, for the f-string of the capacity message.\<close>

fun str_nat :: "nat \<Rightarrow> string" where
  "str_nat n =
     (if n < 10 then [''0123456789'' ! n]
      else str_nat (n div 10) @ [''0123456789'' ! (n mod 10)])"

declare str_nat.simps [simp del]

subsection \<open>GET\<close>

fun str_keys :: "pyval list \<Rightarrow> string list option" where
  "str_keys [] = Some []"
| "str_keys (PStr s # vs) = map_option ((#) s) (str_keys vs)"
| "str_keys (_ # vs) = None"

fun int_keys :: "pyval list \<Rightarrow> int list option" where
  "int_keys [] = Some []"
| "int_keys (PInt i # vs) = map_option ((#) i) (int_keys vs)"
| "int_keys (_ # vs) = None"

fun datetime_keys :: "appt list \<Rightarrow> exn + pyval list" where
  "datetime_keys [] = Inr []"
| "datetime_keys (a # as) =
     (case getitem a ''datetime'' of
        Inl e \<Rightarrow> Inl e
      | Inr v \<Rightarrow> (case datetime_keys as of Inl e \<Rightarrow> Inl e | Inr vs \<Rightarrow> Inr (v # vs)))"

text \<open>
  \<^verbatim>\<open>sorted(appointments, key=lambda a: a["datetime"])\<close>: the keys are computed first, then
  the list is sorted by a stable sort that compares keys only. Fewer than two keys are never
  compared; strings compare with strings and integers with integers, and any other pair of
  keys raises \<^verbatim>\<open>TypeError\<close>.
\<close>

definition sorted_by_datetime :: "appt list \<Rightarrow> exn + appt list" where
  "sorted_by_datetime as =
     (case datetime_keys as of
        Inl e \<Rightarrow> Inl e
      | Inr ks \<Rightarrow>
          if length ks < 2 then Inr as
          else (case str_keys ks of
                  Some ss \<Rightarrow> Inr (map snd (sort_key fst (zip ss as)))
                | None \<Rightarrow>
                    (case int_keys ks of
                       Some ns \<Rightarrow> Inr (map snd (sort_key fst (zip ns as)))
                     | None \<Rightarrow> Inl TypeError)))"

definition api_get :: "state \<Rightarrow> response result \<times> state" where
  "api_get st =
     (case sorted_by_datetime (appointments st) of
        Inl e \<Rightarrow> (Raised e, st)
      | Inr as \<Rightarrow> (Returned (Response 200 (JAppointments as)), st))"

subsection \<open>POST\<close>

definition new_appt :: "env \<Rightarrow> string \<Rightarrow> string \<Rightarrow> string \<Rightarrow> string \<Rightarrow> appt" where
  "new_appt e name address reason dt =
     [(''id'', PStr (uuid4 e)),
      (''name'', PStr name),
      (''address'', PStr address),
      (''reason'', PStr reason),
      (''datetime'', PStr dt),
      (''created_at'', PStr (utcnow e))]"

text \<open>The handler after the four fields have been read and stripped.\<close>

definition post_fields ::
  "parser \<Rightarrow> env \<Rightarrow> state \<Rightarrow> string \<Rightarrow> string \<Rightarrow> string \<Rightarrow> string \<Rightarrow> response result \<times> state"
where
  "post_fields parse e st name address reason dt =
     (if name = [] \<or> dt = [] then
        (Returned (Response 400 (JError ''Name and datetime are required.'')), st)
      else
        case fromisoformat parse (PStr dt) of
          Inl x \<Rightarrow> (Returned (Response 400 (JError ''Invalid datetime format.'')), st)
        | Inr d \<Rightarrow>
            if count_in_hour parse (appointments st) (PStr dt) \<ge> MAX_PER_HOUR then
              (Returned
                 (Response 409 (JError (''Hour full (max '' @ str_nat MAX_PER_HOUR @ '').''))),
               st)
            else
              let a = new_appt e name address reason dt;
                  st1 = st\<lparr>appointments := appointments st @ [a]\<rparr>
              in
              (case save_excel e st1 of
                 (Raised x, st2) \<Rightarrow> (Raised x, st2)
               | (Returned u, st2) \<Rightarrow> (Returned (Response 201 (JAppointment a)), st2)))"

text \<open>
  The POST handler; \<open>data\<close> is the dictionary \<^verbatim>\<open>request.json or {}\<close>. The four fields are
  read in the order of the source, and the first one that is not a string raises.
\<close>

definition api_post ::
  "parser \<Rightarrow> env \<Rightarrow> state \<Rightarrow> (string \<rightharpoonup> pyval) \<Rightarrow> response result \<times> state"
where
  "api_post parse e st data =
     (case get_strip data ''name'' of
        Inl x \<Rightarrow> (Raised x, st)
      | Inr name \<Rightarrow>
     (case get_strip data ''address'' of
        Inl x \<Rightarrow> (Raised x, st)
      | Inr address \<Rightarrow>
     (case get_strip data ''reason'' of
        Inl x \<Rightarrow> (Raised x, st)
      | Inr reason \<Rightarrow>
     (case get_strip data ''datetime'' of
        Inl x \<Rightarrow> (Raised x, st)
      | Inr dt \<Rightarrow> post_fields parse e st name address reason dt))))"

subsection \<open>DELETE\<close>

text \<open>\<^verbatim>\<open>[a for a in appointments if a["id"] != appt_id]\<close>.\<close>

fun keep_others :: "appt list \<Rightarrow> pyval \<Rightarrow> exn + appt list" where
  "keep_others [] appt_id = Inr []"
| "keep_others (a # as) appt_id =
     (case getitem a ''id'' of
        Inl e \<Rightarrow> Inl e
      | Inr v \<Rightarrow>
          (case keep_others as appt_id of
             Inl e \<Rightarrow> Inl e
           | Inr r \<Rightarrow> Inr (if v \<noteq> appt_id then a # r else r)))"

definition api_delete ::
  "env \<Rightarrow> state \<Rightarrow> (string \<rightharpoonup> pyval) \<Rightarrow> response result \<times> state"
where
  "api_delete e st data =
     (let appt_id = (case data ''id'' of None \<Rightarrow> PNone | Some v \<Rightarrow> v);
          len_before = length (appointments st)
      in
      case keep_others (appointments st) appt_id of
        Inl x \<Rightarrow> (Raised x, st)
      | Inr kept \<Rightarrow>
          let st1 = st\<lparr>appointments := kept\<rparr> in
          if length (appointments st1) = len_before then
            (Returned (Response 404 (JError ''Appointment not found'')), st1)
          else
            (case save_excel e st1 of
               (Raised x, st2) \<Rightarrow> (Raised x, st2)
             | (Returned u, st2) \<Rightarrow> (Returned (Response 200 JOk), st2)))"

subsection \<open>Sequences of requests\<close>

datatype request = GET | POST "string \<rightharpoonup> pyval" | DELETE "string \<rightharpoonup> pyval"

fun handle :: "parser \<Rightarrow> env \<Rightarrow> state \<Rightarrow> request \<Rightarrow> response result \<times> state" where
  "handle parse e st GET = api_get st"
| "handle parse e st (POST data) = api_post parse e st data"
| "handle parse e st (DELETE data) = api_delete e st data"

text \<open>
  The state after a sequence of requests, each with its own environment. A request that
  raises ends with an error response of the framework; the process and its list live on.
\<close>

fun run :: "parser \<Rightarrow> state \<Rightarrow> (env \<times> request) list \<Rightarrow> state" where
  "run parse st [] = st"
| "run parse st ((e, r) # rs) = run parse (snd (handle parse e st r)) rs"

section \<open>The specification's notions\<close>

text \<open>
  The capacity bound in the words of the specification: no bucket holds more than
  \<open>MAX_PER_HOUR\<close> records.
\<close>

definition capacity_ok :: "parser \<Rightarrow> appt list \<Rightarrow> bool" where
  "capacity_ok parse as = (\<forall>b. length (in_bucket parse b as) \<le> MAX_PER_HOUR)"

text \<open>The same bound, checked at the buckets of the records themselves.\<close>

definition capacity_check :: "parser \<Rightarrow> appt list \<Rightarrow> bool" where
  "capacity_check parse as =
     list_all (\<lambda>a. case bucket_of parse a of
                      None \<Rightarrow> True
                    | Some b \<Rightarrow> length (in_bucket parse b as) \<le> MAX_PER_HOUR) as"


text \<open>The sort key of a record whose \<open>datetime\<close> is text.\<close>

definition datetime_text :: "appt \<Rightarrow> string" where
  "datetime_text a = (case map_of a ''datetime'' of Some (PStr s) \<Rightarrow> s | _ \<Rightarrow> [])"

definition has_text_datetime :: "appt \<Rightarrow> bool" where
  "has_text_datetime a = (case map_of a ''datetime'' of Some (PStr s) \<Rightarrow> True | _ \<Rightarrow> False)"

text \<open>The identifier of a record, \<open>None\<close> when the key is missing.\<close>

definition id_of :: "appt \<Rightarrow> pyval option" where
  "id_of a = map_of a ''id''"

text \<open>A record with exactly the six keys of \<open>HEADERS\<close>.\<close>

definition complete :: "appt \<Rightarrow> bool" where
  "complete a = (map fst a = HEADERS)"

text \<open>The text of a request field: the default \<^verbatim>\<open>""\<close> when the key is absent.\<close>

definition text_of :: "(string \<rightharpoonup> pyval) \<Rightarrow> string \<Rightarrow> string" where
  "text_of data k = (case data k of Some (PStr s) \<Rightarrow> s | _ \<Rightarrow> [])"

definition text_or_absent :: "(string \<rightharpoonup> pyval) \<Rightarrow> string \<Rightarrow> bool" where
  "text_or_absent data k = (case data k of None \<Rightarrow> True | Some (PStr s) \<Rightarrow> True | Some _ \<Rightarrow> False)"





section \<open>Example inputs\<close>

definition demo_env :: "string \<Rightarrow> env" where
  "demo_env u =
     \<lparr>uuid4 = u, utcnow = ''2024-01-01T08:00:00'', tempdir = ''/tmp'', cwd = ''/srv/app'',
      rand_name = ''k3x9q2ab'', mkstemp_raises = False, wb_save_raises = False,
      replace_raises = False\<rparr>"

definition demo_start :: state where
  "demo_start = \<lparr>appointments = [], files = Map.empty\<rparr>"

definition demo_post :: "string \<Rightarrow> string \<Rightarrow> (string \<rightharpoonup> pyval)" where
  "demo_post n d = [''name'' \<mapsto> PStr n, ''datetime'' \<mapsto> PStr d]"

definition demo_appt :: "string \<Rightarrow> string \<Rightarrow> appt" where
  "demo_appt u d = new_appt (demo_env u) ''Ann'' [] ''cough'' d"

definition demo_row :: "string \<Rightarrow> string \<Rightarrow> pyval list" where
  "demo_row u d =
     [PStr u, PStr ''Ann'', PStr ''1 Main St'', PStr ''cough'', PStr d, PStr ''2024-01-01T08:00:00'']"

text \<open>A ledger edited by hand: five rows in the hour from 9 to 10.\<close>

definition crowded_disk :: state where
  "crowded_disk =
     \<lparr>appointments = [],
      files = [(''/srv/app'', ''appointments.xlsx'') \<mapsto>
        Workbook [map PStr HEADERS,
                  demo_row ''a1'' ''2024-01-01T09:00'',
                  demo_row ''a2'' ''2024-01-01T09:10'',
                  demo_row ''a3'' ''2024-01-01T09:20'',
                  demo_row ''a4'' ''2024-01-01T09:30'',
                  demo_row ''a5'' ''2024-01-01T09:40'']]\<rparr>"

text \<open>A ledger edited by hand in which two rows carry the same identifier.\<close>

definition twin_disk :: state where
  "twin_disk =
     \<lparr>appointments = [],
      files = [(''/srv/app'', ''appointments.xlsx'') \<mapsto>
        Workbook [map PStr HEADERS,
                  demo_row ''a1'' ''2024-01-01T09:00'',
                  demo_row ''a1'' ''2024-01-03T15:30'',
                  demo_row ''a2'' ''2024-01-02T11:00'']]\<rparr>"

text \<open>
  A collection as a hand-edited ledger can produce it: an unparsable date, empty cells, and
  a record from a sheet with a single column.
\<close>

definition mixed_ledger :: "appt list" where
  "mixed_ledger =
     [demo_appt ''a1'' ''2024-01-01T09:15'',
      demo_appt ''a2'' ''soon'',
      demo_appt ''a3'' ''2024-01-01T09:45'',
      [(''id'', PStr ''a4''), (''name'', PStr ''Bo''), (''address'', PNone), (''reason'', PNone),
       (''datetime'', PNone), (''created_at'', PNone)],
      demo_appt ''a5'' ''2024-01-01T10:05'',
      [(''id'', PStr ''a6'')]]"

text \<open>
  The scenario of the specification: four inserts in the hour from 9 to 10, a fifth one in
  the same hour, one in the next hour; then a delete and a listing.
\<close>

definition demo_requests :: "(env \<times> request) list" where
  "demo_requests =
     [(demo_env ''u1'', POST (demo_post ''Ann'' ''2024-01-01T09:15'')),
      (demo_env ''u2'', POST (demo_post ''Bob'' ''2024-01-01T09:30'')),
      (demo_env ''u3'', POST (demo_post ''Cy'' ''2024-01-01T09:45'')),
      (demo_env ''u4'', POST (demo_post ''Di'' ''2024-01-01T09:50'')),
      (demo_env ''u5'', POST (demo_post ''Ed'' ''2024-01-01T09:05'')),
      (demo_env ''u6'', POST (demo_post ''Flo'' ''2024-01-01T10:05'')),
      (demo_env ''u7'', DELETE [''id'' \<mapsto> PStr ''u2'']),
      (demo_env ''u8'', GET)]"

text \<open>Four appointments in the hour from 9 to 10.\<close>

definition full_hour :: state where
  "full_hour =
     \<lparr>appointments =
        [demo_appt ''u1'' ''2024-01-01T09:15'', demo_appt ''u2'' ''2024-01-01T09:30'',
         demo_appt ''u3'' ''2024-01-01T09:45'', demo_appt ''u4'' ''2024-01-01T09:50''],
      files = Map.empty\<rparr>"

text \<open>One appointment, saved in the ledger.\<close>

definition saved_once :: state where
  "saved_once =
     \<lparr>appointments = [demo_appt ''u1'' ''2024-01-01T09:15''],
      files = [(''/srv/app'', ''appointments.xlsx'') \<mapsto>
        Workbook [map PStr HEADERS,
                  [PStr ''u1'', PStr ''Ann'', PStr [], PStr ''cough'', PStr ''2024-01-01T09:15'',
                   PStr ''2024-01-01T08:00:00'']]]\<rparr>"

text \<open>A request during which writing the workbook fails.\<close>

definition failing_env :: env where
  "failing_env = (demo_env ''u2'')\<lparr>wb_save_raises := True\<rparr>"


text \<open>Three inserts out of order, two of them at the same minute.\<close>

definition demo_posts :: "(env \<times> (string \<rightharpoonup> pyval)) list" where
  "demo_posts =
     [(demo_env ''u1'', demo_post ''Ann'' ''2024-01-01T10:05''),
      (demo_env ''u2'', demo_post ''Bob'' ''2024-01-01T09:15''),
      (demo_env ''u3'', demo_post ''Cy'' ''2024-01-01T10:05'')]"

section \<open>Counting\<close>

lemma count_loop_acc:
  "count_loop parse dt as n = n + length (in_bucket parse (bucket dt) as)"
proof (induction as arbitrary: n)
  case Nil
  show ?case by (simp add: in_bucket_def)
next
  case (Cons a as)
  show ?case
  proof (cases "map_of a ''datetime''")
    case None
    then show ?thesis
      using Cons.IH by (simp add: getitem_def in_bucket_def bucket_of_def)
  next
    case (Some v)
    then show ?thesis
      using Cons.IH
      by (cases v)
         (auto simp: getitem_def in_bucket_def bucket_of_def fromisoformat_def
               split: option.splits)
  qed
qed

lemma count_in_hour_text:
  "count_in_hour parse as (PStr s) =
     (case parse s of None \<Rightarrow> 0 | Some dt \<Rightarrow> length (in_bucket parse (bucket dt) as))"
  by (simp add: count_in_hour_def fromisoformat_def count_loop_acc split: option.splits)

lemmas iso_core_eval =
  iso_core_def parse_date_def parse_time_def make_datetime_def days_in_month_def is_leap_def
  digit_of_def bucket_def

text \<open>
  Claim C8. For every candidate value and every collection, \<open>count_in_hour\<close> returns a
  number (the function has no raising path: each exception of its two \<^verbatim>\<open>try\<close> blocks
  is a branch that returns or continues): 0 when the candidate is not a string or does not
  parse, and otherwise the number of stored records whose \<open>datetime\<close> parses and falls in the
  (year, month, day, hour) bucket of the candidate; records without a parsable \<open>datetime\<close>
  are skipped.
\<close>

theorem count_in_hour_counts:
  "count_in_hour parse as candidate =
     (case candidate of
        PStr s \<Rightarrow>
          (case parse s of
             None \<Rightarrow> 0
           | Some dt \<Rightarrow>
               length (filter (\<lambda>a. bucket_of parse a = Some (bucket dt)) as))
      | _ \<Rightarrow> 0)"
  by (cases candidate)
     (simp_all add: count_in_hour_def fromisoformat_def count_loop_acc in_bucket_def
        split: option.splits)

theorem count_in_hour_counts_witness:
  "count_in_hour iso_core mixed_ledger (PStr ''2024-01-01T09:00'') = 2
   \<and> count_in_hour iso_core mixed_ledger (PStr ''soon'') = 0
   \<and> count_in_hour iso_core mixed_ledger PNone = 0"
  using count_in_hour_counts [of iso_core mixed_ledger "PStr ''2024-01-01T09:00''"]
        count_in_hour_counts [of iso_core mixed_ledger "PStr ''soon''"]
        count_in_hour_counts [of iso_core mixed_ledger PNone]
  by (simp add: mixed_ledger_def demo_appt_def new_appt_def demo_env_def bucket_of_def
        iso_core_eval)

section \<open>Saving, inserting and deleting: what happens to the collection\<close>

lemma tmp_ne_target: "tmp_path e \<noteq> target_path e"
  by (simp add: tmp_path_def target_path_def EXCEL_FILE_def)

lemma save_excel_appointments: "appointments (snd (save_excel e st)) = appointments st"
  by (simp add: save_excel_def Let_def split: sum.splits)

lemma keep_others_filter:
  "keep_others as i = Inr kept \<Longrightarrow> kept = filter (\<lambda>a. id_of a \<noteq> Some i) as"
  by (induction as arbitrary: kept)
     (auto simp: getitem_def id_of_def split: option.splits sum.splits)

lemma keep_others_total:
  "\<forall>a\<in>set as. id_of a \<noteq> None \<Longrightarrow> keep_others as i = Inr (filter (\<lambda>a. id_of a \<noteq> Some i) as)"
  by (induction as) (auto simp: getitem_def id_of_def split: option.splits sum.splits)

lemma bucket_of_new_appt:
  "bucket_of parse (new_appt e n a r dt) = map_option bucket (parse dt)"
  by (simp add: bucket_of_def new_appt_def)

lemma post_fields_appointments:
  "appointments (snd (post_fields parse e st name address reason dt)) = appointments st
   \<or> (\<exists>d. parse dt = Some d
          \<and> count_in_hour parse (appointments st) (PStr dt) < MAX_PER_HOUR
          \<and> appointments (snd (post_fields parse e st name address reason dt))
              = appointments st @ [new_appt e name address reason dt])"
proof -
  let ?st1 = "st\<lparr>appointments := appointments st @ [new_appt e name address reason dt]\<rparr>"
  have s: "appointments (snd (save_excel e ?st1)) = appointments ?st1"
    by (rule save_excel_appointments)
  show ?thesis
    using s
    by (cases "save_excel e ?st1"; cases "fst (save_excel e ?st1)")
       (auto simp: post_fields_def fromisoformat_def Let_def split: option.splits)
qed

lemma api_post_cases:
  "(\<exists>x. api_post parse e st data = (Raised x, st))
   \<or> (\<exists>name address reason dt.
         api_post parse e st data = post_fields parse e st name address reason dt)"
  unfolding api_post_def by (simp split: sum.splits) blast

lemma api_post_appointments:
  "appointments (snd (api_post parse e st data)) = appointments st
   \<or> (\<exists>name address reason dt d. parse dt = Some d
          \<and> count_in_hour parse (appointments st) (PStr dt) < MAX_PER_HOUR
          \<and> appointments (snd (api_post parse e st data))
              = appointments st @ [new_appt e name address reason dt])"
proof -
  consider x where "api_post parse e st data = (Raised x, st)"
    | name address reason dt where
      "api_post parse e st data = post_fields parse e st name address reason dt"
    using api_post_cases by blast
  then show ?thesis
  proof cases
    case 1
    then show ?thesis by simp
  next
    case 2
    show ?thesis
      using post_fields_appointments [of parse e st name address reason dt]
      unfolding 2 by blast
  qed
qed

lemma capacity_append:
  assumes "capacity_ok parse as" and "parse dt = Some d"
    and "count_in_hour parse as (PStr dt) < MAX_PER_HOUR"
  shows "capacity_ok parse (as @ [new_appt e n a r dt])"
  unfolding capacity_ok_def
proof
  fix b
  have c: "length (in_bucket parse (bucket d) as) < MAX_PER_HOUR"
    using assms(2,3) by (simp add: count_in_hour_text)
  have o: "length (in_bucket parse b as) \<le> MAX_PER_HOUR"
    using assms(1) unfolding capacity_ok_def by blast
  show "length (in_bucket parse b (as @ [new_appt e n a r dt])) \<le> MAX_PER_HOUR"
    using c o assms(2) by (auto simp: in_bucket_def bucket_of_new_appt)
qed

lemma capacity_filter:
  assumes "capacity_ok parse as"
  shows "capacity_ok parse (filter P as)"
  unfolding capacity_ok_def
proof
  fix b
  have "in_bucket parse b (filter P as) = filter P (in_bucket parse b as)"
    by (auto simp: in_bucket_def intro: filter_cong)
  then have "length (in_bucket parse b (filter P as)) \<le> length (in_bucket parse b as)"
    by simp
  also have "\<dots> \<le> MAX_PER_HOUR" using assms unfolding capacity_ok_def by blast
  finally show "length (in_bucket parse b (filter P as)) \<le> MAX_PER_HOUR" .
qed

lemma api_get_state: "snd (api_get st) = st"
  by (simp add: api_get_def split: sum.splits)

lemma api_delete_appointments:
  "appointments (snd (api_delete e st data)) = appointments st
   \<or> (\<exists>i. appointments (snd (api_delete e st data))
            = filter (\<lambda>a. id_of a \<noteq> Some i) (appointments st))"
proof (cases "keep_others (appointments st) (case data ''id'' of None \<Rightarrow> PNone | Some v \<Rightarrow> v)")
  case (Inl x)
  then show ?thesis by (simp add: api_delete_def)
next
  case (Inr kept)
  let ?st1 = "st\<lparr>appointments := kept\<rparr>"
  have s: "appointments (snd (save_excel e ?st1)) = kept"
    by (simp add: save_excel_appointments)
  have k: "kept = filter (\<lambda>a. id_of a \<noteq> Some (case data ''id'' of None \<Rightarrow> PNone | Some v \<Rightarrow> v))
             (appointments st)"
    using Inr by (rule keep_others_filter)
  have "appointments (snd (api_delete e st data)) = kept"
    using Inr s
    by (cases "save_excel e ?st1"; cases "fst (save_excel e ?st1)")
       (auto simp: api_delete_def Let_def)
  with k show ?thesis by blast
qed

lemma handle_capacity:
  assumes "capacity_ok parse (appointments st)"
  shows "capacity_ok parse (appointments (snd (handle parse e st r)))"
proof (cases r)
  case GET
  then show ?thesis using assms by (simp add: api_get_state)
next
  case (POST data)
  then show ?thesis
    using assms api_post_appointments [of parse e st data]
    by (auto simp: capacity_append)
next
  case (DELETE data)
  then show ?thesis
    using assms api_delete_appointments [of e st data]
    by (auto simp: capacity_filter)
qed

lemma run_capacity:
  "capacity_ok parse (appointments st) \<Longrightarrow> capacity_ok parse (appointments (run parse st rs))"
  by (induction rs arbitrary: st) (auto simp: handle_capacity)

lemma load_absent:
  "files st (target_path e) = None \<Longrightarrow> appointments (snd (load_excel cr e st)) = []"
  by (simp add: load_excel_def)

section \<open>The capacity bound\<close>

text \<open>The executable check decides the bound of the specification.\<close>

lemma capacity_check_iff: "capacity_check parse as = capacity_ok parse as"
proof
  assume c: "capacity_check parse as"
  show "capacity_ok parse as"
    unfolding capacity_ok_def
  proof
    fix b
    show "length (in_bucket parse b as) \<le> MAX_PER_HOUR"
    proof (cases "in_bucket parse b as")
      case Nil
      then show ?thesis by simp
    next
      case (Cons a rest)
      then have "a \<in> set (in_bucket parse b as)" by simp
      then have "a \<in> set as" and "bucket_of parse a = Some b"
        by (auto simp: in_bucket_def)
      with c show ?thesis
        by (auto simp: capacity_check_def list_all_iff)
    qed
  qed
next
  assume "capacity_ok parse as"
  then show "capacity_check parse as"
    unfolding capacity_ok_def capacity_check_def list_all_iff
    by (auto split: option.splits)
qed

text \<open>
  Claim C1, amended. \<^verbatim>\<open>load_excel\<close> takes every row of the ledger without a capacity
  check. What holds is: when the ledger is absent at startup, or the collection that
  \<^verbatim>\<open>load_excel\<close> produced respects the bound, then after any sequence of GET, POST and
  DELETE requests (whatever they return or raise) no (year, month, day, hour) bucket holds
  more than \<open>MAX_PER_HOUR\<close> records.
\<close>

theorem capacity_invariant:
  assumes "files st0 (target_path e0) = None
           \<or> (\<forall>b. length (in_bucket parse b (appointments (snd (load_excel cell_read e0 st0))))
                     \<le> MAX_PER_HOUR)"
  shows "\<forall>b. length (in_bucket parse b
                 (appointments (run parse (snd (load_excel cell_read e0 st0)) rs)))
               \<le> MAX_PER_HOUR"
proof -
  have "capacity_ok parse (appointments (snd (load_excel cell_read e0 st0)))"
    using assms unfolding capacity_ok_def by (auto simp: load_absent in_bucket_def)
  then have "capacity_ok parse (appointments (run parse (snd (load_excel cell_read e0 st0)) rs))"
    by (rule run_capacity)
  then show ?thesis unfolding capacity_ok_def by blast
qed

theorem capacity_invariant_witness:
  "files demo_start (target_path (demo_env ''boot'')) = None
   \<and> (\<forall>b. length (in_bucket iso_core b
             (appointments (run iso_core (snd (load_excel id (demo_env ''boot'') demo_start))
                demo_requests)))
           \<le> MAX_PER_HOUR)"
  using capacity_invariant [of demo_start "demo_env ''boot''" iso_core id demo_requests]
  by (simp add: demo_start_def)

text \<open>
  The claim as stated fails right after startup, before any request: loading a ledger with
  five rows in one hour gives a collection with five records in that bucket.
\<close>

theorem load_unchecked_counterexample:
  "\<not> length (in_bucket iso_core (2024, 1, 1, 9)
        (appointments (run iso_core (snd (load_excel id (demo_env ''boot'') crowded_disk)) [])))
      \<le> MAX_PER_HOUR"
  by (simp add: load_excel_def crowded_disk_def demo_env_def target_path_def EXCEL_FILE_def
        HEADERS_def demo_row_def in_bucket_def bucket_of_def iso_core_eval MAX_PER_HOUR_def)

section \<open>Inserting\<close>

lemma str_nat_MAX_PER_HOUR: "str_nat MAX_PER_HOUR = ''4''"
  by (simp add: MAX_PER_HOUR_def str_nat.simps [of 4])

lemma get_strip_iff:
  "get_strip data k = Inr s \<longleftrightarrow> text_or_absent data k \<and> s = strip (text_of data k)"
  by (auto simp: get_strip_def text_or_absent_def text_of_def split: option.splits pyval.splits)

lemma get_strip_text:
  "text_or_absent data k \<Longrightarrow> get_strip data k = Inr (strip (text_of data k))"
  by (simp add: get_strip_iff)

lemma api_post_text:
  assumes "text_or_absent data ''name''" and "text_or_absent data ''address''"
    and "text_or_absent data ''reason''" and "text_or_absent data ''datetime''"
  shows "api_post parse e st data =
           post_fields parse e st (strip (text_of data ''name'')) (strip (text_of data ''address''))
             (strip (text_of data ''reason'')) (strip (text_of data ''datetime''))"
  using assms by (simp add: api_post_def get_strip_text)

lemma api_post_raised_early:
  assumes "\<not> (text_or_absent data ''name'' \<and> text_or_absent data ''address''
             \<and> text_or_absent data ''reason'' \<and> text_or_absent data ''datetime'')"
  shows "api_post parse e st data = (Raised AttributeError, st)"
  using assms
  by (auto simp: api_post_def get_strip_def text_or_absent_def
           split: option.splits pyval.splits sum.splits)

lemma post_fields_required:
  "name = [] \<or> dt = [] \<Longrightarrow>
   post_fields parse e st name address reason dt =
     (Returned (Response 400 (JError ''Name and datetime are required.'')), st)"
  by (simp add: post_fields_def)

lemma post_fields_invalid:
  "name \<noteq> [] \<Longrightarrow> dt \<noteq> [] \<Longrightarrow> parse dt = None \<Longrightarrow>
   post_fields parse e st name address reason dt =
     (Returned (Response 400 (JError ''Invalid datetime format.'')), st)"
  by (simp add: post_fields_def fromisoformat_def)

lemma post_fields_full:
  "name \<noteq> [] \<Longrightarrow> dt \<noteq> [] \<Longrightarrow> parse dt = Some d \<Longrightarrow>
   MAX_PER_HOUR \<le> count_in_hour parse (appointments st) (PStr dt) \<Longrightarrow>
   post_fields parse e st name address reason dt =
     (Returned (Response 409 (JError ''Hour full (max 4).'')), st)"
  by (simp add: post_fields_def fromisoformat_def str_nat_MAX_PER_HOUR)

lemma post_fields_insert:
  assumes "name \<noteq> []" and "dt \<noteq> []" and "parse dt = Some d"
    and "count_in_hour parse (appointments st) (PStr dt) < MAX_PER_HOUR"
  shows "post_fields parse e st name address reason dt =
     (case fst (save_excel e (st\<lparr>appointments := appointments st @ [new_appt e name address reason dt]\<rparr>)) of
        Raised x \<Rightarrow> Raised x
      | Returned u \<Rightarrow> Returned (Response 201 (JAppointment (new_appt e name address reason dt))),
      snd (save_excel e (st\<lparr>appointments := appointments st @ [new_appt e name address reason dt]\<rparr>)))"
  using assms
  by (simp add: post_fields_def fromisoformat_def Let_def split: prod.splits result.splits)

text \<open>
  Claim C2, amended. For every insert request whose name and datetime are text, not empty
  after stripping, the datetime parsing into a (year, month, day, hour) bucket that already
  holds \<open>MAX_PER_HOUR\<close> records (or more): when address and reason are text or absent, the
  handler answers 409 with the message "Hour full (max 4)."; when one of them is present
  and not text, the handler raises \<^verbatim>\<open>AttributeError\<close> instead. Either way the state after
  the request is the state before it: no record is appended and no file is written.
\<close>

theorem hour_full_rejected:
  assumes "text_or_absent data ''name''" and "text_or_absent data ''datetime''"
    and "strip (text_of data ''name'') \<noteq> []"
    and "strip (text_of data ''datetime'') \<noteq> []"
    and "parse (strip (text_of data ''datetime'')) = Some d"
    and "MAX_PER_HOUR \<le> length (in_bucket parse (bucket d) (appointments st))"
  shows "api_post parse e st data =
           (if text_or_absent data ''address'' \<and> text_or_absent data ''reason''
            then Returned (Response 409 (JError ''Hour full (max 4).''))
            else Raised AttributeError,
            st)"
proof (cases "text_or_absent data ''address'' \<and> text_or_absent data ''reason''")
  case True
  have "MAX_PER_HOUR
          \<le> count_in_hour parse (appointments st) (PStr (strip (text_of data ''datetime'')))"
    using assms(5,6) by (simp add: count_in_hour_text)
  then show ?thesis
    using assms True by (simp add: api_post_text post_fields_full)
next
  case False
  then have "api_post parse e st data = (Raised AttributeError, st)"
    by (intro api_post_raised_early) blast
  with False show ?thesis by simp
qed

lemmas demo_eval =
  demo_post_def demo_env_def demo_appt_def new_appt_def text_or_absent_def text_of_def
  strip_def is_space_def

theorem hour_full_rejected_witness:
  "MAX_PER_HOUR \<le> length (in_bucket iso_core (2024, 1, 1, 9) (appointments full_hour))
   \<and> api_post iso_core (demo_env ''u5'') full_hour (demo_post ''Ed'' ''2024-01-01T09:05'')
       = (Returned (Response 409 (JError ''Hour full (max 4).'')), full_hour)
   \<and> api_post iso_core (demo_env ''u5'') full_hour
         [''name'' \<mapsto> PStr ''Ed'', ''reason'' \<mapsto> PInt 5,
          ''datetime'' \<mapsto> PStr ''2024-01-01T09:05'']
       = (Raised AttributeError, full_hour)"
  using hour_full_rejected [of "demo_post ''Ed'' ''2024-01-01T09:05''" iso_core
          "\<lparr>year = 2024, month = 1, day = 1, hour = 9, minute = 5, second = 0\<rparr>"
          full_hour "demo_env ''u5''"]
        hour_full_rejected [of "[''name'' \<mapsto> PStr ''Ed'', ''reason'' \<mapsto> PInt 5,
          ''datetime'' \<mapsto> PStr ''2024-01-01T09:05'']" iso_core
          "\<lparr>year = 2024, month = 1, day = 1, hour = 9, minute = 5, second = 0\<rparr>"
          full_hour "demo_env ''u5''"]
  by (simp add: demo_eval full_hour_def in_bucket_def bucket_of_def iso_core_eval
        MAX_PER_HOUR_def)

text \<open>
  The claim as stated fails for a request with a non-empty name and a parsable datetime in a
  full hour whose address is \<^verbatim>\<open>null\<close>: the handler strips the address before it looks
  at the capacity, and raises.
\<close>

theorem null_address_counterexample:
  "MAX_PER_HOUR \<le> count_in_hour iso_core (appointments full_hour) (PStr ''2024-01-01T09:05'')
   \<and> api_post iso_core (demo_env ''u5'') full_hour
         [''name'' \<mapsto> PStr ''Ed'', ''address'' \<mapsto> PNone,
          ''datetime'' \<mapsto> PStr ''2024-01-01T09:05'']
       = (Raised AttributeError, full_hour)"
  by (simp add: api_post_def get_strip_def count_in_hour_def fromisoformat_def getitem_def
        full_hour_def demo_eval iso_core_eval MAX_PER_HOUR_def)




lemma api_post_created:
  assumes "fst (api_post parse e st data) = Returned (Response 201 (JAppointment a))"
  shows "text_or_absent data ''name'' \<and> text_or_absent data ''address''
         \<and> text_or_absent data ''reason'' \<and> text_or_absent data ''datetime''
         \<and> a = new_appt e (strip (text_of data ''name'')) (strip (text_of data ''address''))
                 (strip (text_of data ''reason'')) (strip (text_of data ''datetime''))
         \<and> appointments (snd (api_post parse e st data)) = appointments st @ [a]"
proof -
  let ?name = "strip (text_of data ''name'')"
  let ?address = "strip (text_of data ''address'')"
  let ?reason = "strip (text_of data ''reason'')"
  let ?dt = "strip (text_of data ''datetime'')"
  let ?a = "new_appt e ?name ?address ?reason ?dt"
  have t: "text_or_absent data ''name'' \<and> text_or_absent data ''address''
           \<and> text_or_absent data ''reason'' \<and> text_or_absent data ''datetime''"
  proof (rule ccontr)
    assume "\<not> ?thesis"
    then have "api_post parse e st data = (Raised AttributeError, st)"
      by (rule api_post_raised_early)
    with assms show False by simp
  qed
  then have p: "api_post parse e st data = post_fields parse e st ?name ?address ?reason ?dt"
    by (simp add: api_post_text)
  have n: "?name \<noteq> []" "?dt \<noteq> []"
    using assms unfolding p by (auto simp: post_fields_required)
  have v: "parse ?dt \<noteq> None"
  proof
    assume "parse ?dt = None"
    with n assms show False unfolding p by (simp add: post_fields_invalid)
  qed
  have c: "count_in_hour parse (appointments st) (PStr ?dt) < MAX_PER_HOUR"
  proof (rule ccontr)
    assume "\<not> ?thesis"
    then have "MAX_PER_HOUR \<le> count_in_hour parse (appointments st) (PStr ?dt)" by simp
    with n v assms show False unfolding p by (auto simp: post_fields_full)
  qed
  have i: "post_fields parse e st ?name ?address ?reason ?dt =
     (case fst (save_excel e (st\<lparr>appointments := appointments st @ [?a]\<rparr>)) of
        Raised x \<Rightarrow> Raised x
      | Returned u \<Rightarrow> Returned (Response 201 (JAppointment ?a)),
      snd (save_excel e (st\<lparr>appointments := appointments st @ [?a]\<rparr>)))"
    using n v c by (auto simp: post_fields_insert)
  have a: "a = ?a"
    using assms unfolding p i by (simp split: result.splits)
  have "appointments (snd (api_post parse e st data)) = appointments st @ [?a]"
    unfolding p i by (simp add: save_excel_appointments)
  with t a show ?thesis by simp
qed

text \<open>
  Claim C10. Whenever an insert answers 201 with a record, that record holds the request's
  name, address, reason and datetime with the white space at both ends removed (address and
  reason being the empty string when the request has no such key), its \<open>id\<close> is the string
  that \<^verbatim>\<open>uuid4\<close> produced for this request and its \<open>created_at\<close> the reading of the UTC
  clock at this request; the record is the new last element of the collection.
\<close>

theorem created_record:
  assumes "fst (api_post parse e st data) = Returned (Response 201 (JAppointment a))"
  shows "a = [(''id'', PStr (uuid4 e)),
              (''name'', PStr (strip (text_of data ''name''))),
              (''address'', PStr (strip (text_of data ''address''))),
              (''reason'', PStr (strip (text_of data ''reason''))),
              (''datetime'', PStr (strip (text_of data ''datetime''))),
              (''created_at'', PStr (utcnow e))]
       \<and> (data ''address'' = None \<longrightarrow> map_of a ''address'' = Some (PStr []))
       \<and> (data ''reason'' = None \<longrightarrow> map_of a ''reason'' = Some (PStr []))
       \<and> appointments (snd (api_post parse e st data)) = appointments st @ [a]"
  using api_post_created [OF assms]
  by (simp add: new_appt_def text_of_def strip_def)

theorem created_record_witness:
  "fst (api_post iso_core (demo_env ''u1'') demo_start
          [''name'' \<mapsto> PStr ''  Ann Lee '', ''reason'' \<mapsto> PStr '' cough'',
           ''datetime'' \<mapsto> PStr '' 2024-01-01T09:15 ''])
     = Returned (Response 201 (JAppointment
         [(''id'', PStr ''u1''), (''name'', PStr ''Ann Lee''), (''address'', PStr []),
          (''reason'', PStr ''cough''), (''datetime'', PStr ''2024-01-01T09:15''),
          (''created_at'', PStr ''2024-01-01T08:00:00'')]))
   \<and> appointments (snd (api_post iso_core (demo_env ''u1'') demo_start
          [''name'' \<mapsto> PStr ''  Ann Lee '', ''reason'' \<mapsto> PStr '' cough'',
           ''datetime'' \<mapsto> PStr '' 2024-01-01T09:15 '']))
     = [[(''id'', PStr ''u1''), (''name'', PStr ''Ann Lee''), (''address'', PStr []),
          (''reason'', PStr ''cough''), (''datetime'', PStr ''2024-01-01T09:15''),
          (''created_at'', PStr ''2024-01-01T08:00:00'')]]"
proof -
  let ?data = "[''name'' \<mapsto> PStr ''  Ann Lee '', ''reason'' \<mapsto> PStr '' cough'',
                ''datetime'' \<mapsto> PStr '' 2024-01-01T09:15 '']"
  let ?a = "[(''id'', PStr ''u1''), (''name'', PStr ''Ann Lee''), (''address'', PStr []),
          (''reason'', PStr ''cough''), (''datetime'', PStr ''2024-01-01T09:15''),
          (''created_at'', PStr ''2024-01-01T08:00:00'')]"
  have r: "fst (api_post iso_core (demo_env ''u1'') demo_start ?data)
             = Returned (Response 201 (JAppointment ?a))"
    by (simp add: api_post_def get_strip_def post_fields_def
        fromisoformat_def count_in_hour_def save_excel_def getitem_def HEADERS_def
        tmp_path_def demo_start_def demo_eval iso_core_eval MAX_PER_HOUR_def Let_def
        check_string_def illegal_char_def)
  show ?thesis
    using r created_record [OF r] by (simp add: demo_start_def)
qed

section \<open>The two phases of saving\<close>

lemma save_excel_raised_files:
  assumes "fst (save_excel e st) = Raised x" and "p \<noteq> tmp_path e"
  shows "files (snd (save_excel e st)) p = files st p"
  using assms by (auto simp: save_excel_def Let_def split: sum.splits if_splits)

lemma save_excel_raised_target:
  "fst (save_excel e st) = Raised x \<Longrightarrow>
   files (snd (save_excel e st)) (target_path e) = files st (target_path e)"
  using tmp_ne_target [of e] by (metis save_excel_raised_files)




lemmas save_eval =
  save_excel_def getitem_def HEADERS_def tmp_path_def target_path_def EXCEL_FILE_def Let_def
  check_string_def illegal_char_def



section \<open>A save that fails after the change\<close>

text \<open>
  Claim C9. When \<^verbatim>\<open>save_excel\<close> raises after the POST handler has appended the new
  record, or after the DELETE handler has removed records, the handler raises the same
  exception, the collection keeps the change (the record stays appended, the records stay
  removed), and the ledger at the target path holds what it held before the request.
\<close>

theorem no_rollback:
  assumes "a = new_appt e (strip (text_of data ''name'')) (strip (text_of data ''address''))
                 (strip (text_of data ''reason'')) (strip (text_of data ''datetime''))"
    and "appt_id = (case data' ''id'' of None \<Rightarrow> PNone | Some v \<Rightarrow> v)"
  shows "(text_or_absent data ''name'' \<and> text_or_absent data ''address''
          \<and> text_or_absent data ''reason'' \<and> text_or_absent data ''datetime''
          \<and> strip (text_of data ''name'') \<noteq> [] \<and> strip (text_of data ''datetime'') \<noteq> []
          \<and> parse (strip (text_of data ''datetime'')) \<noteq> None
          \<and> count_in_hour parse (appointments st) (PStr (strip (text_of data ''datetime'')))
              < MAX_PER_HOUR
          \<and> fst (save_excel e (st\<lparr>appointments := appointments st @ [a]\<rparr>)) = Raised x
          \<longrightarrow> fst (api_post parse e st data) = Raised x
              \<and> appointments (snd (api_post parse e st data)) = appointments st @ [a]
              \<and> files (snd (api_post parse e st data)) (target_path e)
                  = files st (target_path e))
       \<and> (keep_others (appointments st) appt_id = Inr kept
          \<and> length kept \<noteq> length (appointments st)
          \<and> fst (save_excel e (st\<lparr>appointments := kept\<rparr>)) = Raised x
          \<longrightarrow> fst (api_delete e st data') = Raised x
              \<and> appointments (snd (api_delete e st data')) = kept
              \<and> files (snd (api_delete e st data')) (target_path e)
                  = files st (target_path e))"
proof (intro conjI impI)
  let ?st1 = "st\<lparr>appointments := appointments st @ [a]\<rparr>"
  assume h: "text_or_absent data ''name'' \<and> text_or_absent data ''address''
          \<and> text_or_absent data ''reason'' \<and> text_or_absent data ''datetime''
          \<and> strip (text_of data ''name'') \<noteq> [] \<and> strip (text_of data ''datetime'') \<noteq> []
          \<and> parse (strip (text_of data ''datetime'')) \<noteq> None
          \<and> count_in_hour parse (appointments st) (PStr (strip (text_of data ''datetime'')))
              < MAX_PER_HOUR
          \<and> fst (save_excel e ?st1) = Raised x"
  then have r: "fst (save_excel e ?st1) = Raised x" by simp
  have p: "api_post parse e st data = (Raised x, snd (save_excel e ?st1))"
    using h assms(1) by (auto simp: api_post_text post_fields_insert)
  show "fst (api_post parse e st data) = Raised x"
    by (simp add: p)
  show "appointments (snd (api_post parse e st data)) = appointments st @ [a]"
    by (simp add: p save_excel_appointments)
  show "files (snd (api_post parse e st data)) (target_path e) = files st (target_path e)"
    using save_excel_raised_target [OF r] by (simp add: p)
next
  let ?st1 = "st\<lparr>appointments := kept\<rparr>"
  assume h: "keep_others (appointments st) appt_id = Inr kept
          \<and> length kept \<noteq> length (appointments st)
          \<and> fst (save_excel e ?st1) = Raised x"
  then have r: "fst (save_excel e ?st1) = Raised x" by simp
  have p: "api_delete e st data' = (Raised x, snd (save_excel e ?st1))"
    using h assms(2) by (auto simp: api_delete_def Let_def split: prod.splits result.splits)
  show "fst (api_delete e st data') = Raised x"
    by (simp add: p)
  show "appointments (snd (api_delete e st data')) = kept"
    by (simp add: p save_excel_appointments)
  show "files (snd (api_delete e st data')) (target_path e) = files st (target_path e)"
    using save_excel_raised_target [OF r] by (simp add: p)
qed

theorem no_rollback_witness:
  "fst (api_post iso_core failing_env saved_once (demo_post ''Bob'' ''2024-01-01T10:00''))
     = Raised OSError
   \<and> appointments
        (snd (api_post iso_core failing_env saved_once (demo_post ''Bob'' ''2024-01-01T10:00'')))
     = appointments saved_once @ [new_appt failing_env ''Bob'' [] [] ''2024-01-01T10:00'']
   \<and> files (snd (api_post iso_core failing_env saved_once (demo_post ''Bob'' ''2024-01-01T10:00'')))
        (target_path failing_env)
     = files saved_once (target_path failing_env)
   \<and> fst (api_delete failing_env saved_once [''id'' \<mapsto> PStr ''u1'']) = Raised OSError
   \<and> appointments (snd (api_delete failing_env saved_once [''id'' \<mapsto> PStr ''u1''])) = []
   \<and> files (snd (api_delete failing_env saved_once [''id'' \<mapsto> PStr ''u1'']))
        (target_path failing_env)
     = files saved_once (target_path failing_env)"
  using no_rollback [where e = failing_env and st = saved_once and parse = iso_core
          and data = "demo_post ''Bob'' ''2024-01-01T10:00''"
          and a = "new_appt failing_env ''Bob'' [] [] ''2024-01-01T10:00''"
          and data' = "[''id'' \<mapsto> PStr ''u1'']" and appt_id = "PStr ''u1''"
          and kept = "[]" and x = OSError]
  by (simp add: failing_env_def saved_once_def save_eval demo_eval count_in_hour_def
        fromisoformat_def iso_core_eval MAX_PER_HOUR_def)

section \<open>Saving and loading again\<close>



lemma zip_complete: "complete a \<Longrightarrow> zip HEADERS (map snd a) = a"
  unfolding complete_def by (metis zip_map_fst_snd)















section \<open>Listing and deleting\<close>

lemma datetime_keys_length: "datetime_keys as = Inr ks \<Longrightarrow> length ks = length as"
  by (induction as arbitrary: ks) (auto split: sum.splits)

lemma str_keys_length: "str_keys ks = Some ss \<Longrightarrow> length ss = length ks"
  by (induction ks arbitrary: ss rule: str_keys.induct) auto

lemma int_keys_length: "int_keys ks = Some ns \<Longrightarrow> length ns = length ks"
  by (induction ks arbitrary: ns rule: int_keys.induct) auto

lemma mset_decorated:
  assumes "length ks = length as"
  shows "mset (map snd (sort_key fst (zip ks as))) = mset as"
proof -
  have "mset (map snd (sort_key fst (zip ks as))) = mset (map snd (zip ks as))"
    by simp
  then show ?thesis
    using assms by (simp only: map_snd_zip)
qed

lemma sorted_by_datetime_mset:
  assumes "sorted_by_datetime as = Inr L"
  shows "mset L = mset as"
proof (cases "datetime_keys as")
  case (Inl x)
  with assms show ?thesis by (simp add: sorted_by_datetime_def)
next
  case (Inr ks)
  note l = datetime_keys_length [OF Inr]
  show ?thesis
  proof (cases "length ks < 2")
    case True
    with assms Inr show ?thesis by (simp add: sorted_by_datetime_def)
  next
    case False
    show ?thesis
    proof (cases "str_keys ks")
      case (Some ss)
      with assms Inr False have "L = map snd (sort_key fst (zip ss as))"
        by (simp add: sorted_by_datetime_def)
      then show ?thesis
        using mset_decorated [of ss as] str_keys_length [OF Some] l by simp
    next
      case None
      show ?thesis
      proof (cases "int_keys ks")
        case (Some ns)
        with assms Inr False None have "L = map snd (sort_key fst (zip ns as))"
          by (simp add: sorted_by_datetime_def)
        then show ?thesis
          using mset_decorated [of ns as] int_keys_length [OF Some] l by simp
      next
        case None': None
        with assms Inr False None show ?thesis by (simp add: sorted_by_datetime_def)
      qed
    qed
  qed
qed

lemma filter_one_out:
  "distinct (map f xs) \<Longrightarrow> y \<in> f ` set xs \<Longrightarrow>
   length (filter (\<lambda>a. f a \<noteq> y) xs) + 1 = length xs"
proof (induction xs)
  case Nil
  then show ?case by simp
next
  case (Cons x xs)
  show ?case
  proof (cases "f x = y")
    case True
    then have "y \<notin> f ` set xs" using Cons.prems(1) by auto
    then have "filter (\<lambda>a. f a \<noteq> y) xs = xs" by (auto simp: filter_id_conv)
    with True show ?thesis by simp
  next
    case False
    then show ?thesis using Cons by auto
  qed
qed

lemma api_delete_absent:
  assumes "\<forall>a\<in>set (appointments st). id_of a \<noteq> None"
    and "i = (case data ''id'' of None \<Rightarrow> PNone | Some v \<Rightarrow> v)"
    and "Some i \<notin> id_of ` set (appointments st)"
  shows "api_delete e st data =
           (Returned (Response 404 (JError ''Appointment not found'')), st)"
proof -
  have "filter (\<lambda>a. id_of a \<noteq> Some i) (appointments st) = appointments st"
    using assms(3) by (force simp: filter_id_conv image_iff)
  then have "keep_others (appointments st) i = Inr (appointments st)"
    using keep_others_total [OF assms(1), of i] by simp
  then show ?thesis
    unfolding assms(2) by (simp add: api_delete_def)
qed

lemma api_delete_present:
  assumes "\<forall>a\<in>set (appointments st). id_of a \<noteq> None"
    and "i = (case data ''id'' of None \<Rightarrow> PNone | Some v \<Rightarrow> v)"
    and "length (filter (\<lambda>a. id_of a \<noteq> Some i) (appointments st)) \<noteq> length (appointments st)"
  shows "api_delete e st data =
     (case fst (save_excel e (st\<lparr>appointments := filter (\<lambda>a. id_of a \<noteq> Some i) (appointments st)\<rparr>)) of
        Raised x \<Rightarrow> Raised x
      | Returned u \<Rightarrow> Returned (Response 200 JOk),
      snd (save_excel e (st\<lparr>appointments := filter (\<lambda>a. id_of a \<noteq> Some i) (appointments st)\<rparr>)))"
  using assms(3) keep_others_total [OF assms(1), of i]
  unfolding assms(2)
  by (simp add: api_delete_def Let_def split: prod.splits result.splits)

lemma load_rows_has_id: "\<forall>a\<in>set (load_rows rows). id_of a \<noteq> None"
  by (induction rows rule: load_rows.induct) (auto simp: id_of_def HEADERS_def)

lemma load_excel_has_id:
  "\<forall>a\<in>set (appointments (snd (load_excel cell_read e st))). id_of a \<noteq> None"
  using load_rows_has_id
  by (auto simp: load_excel_def Let_def split: option.splits filedata.splits)

lemma handle_has_id:
  assumes "\<forall>a\<in>set (appointments st). id_of a \<noteq> None"
  shows "\<forall>a\<in>set (appointments (snd (handle parse e st r))). id_of a \<noteq> None"
proof (cases r)
  case GET
  then show ?thesis using assms by (simp add: api_get_state)
next
  case (POST data)
  have "id_of (new_appt e n a r' d) \<noteq> None" for n a r' d
    by (simp add: id_of_def new_appt_def)
  then show ?thesis
    using POST assms api_post_appointments [of parse e st data] by auto
next
  case (DELETE data)
  then show ?thesis
    using assms api_delete_appointments [of e st data] by auto
qed

lemma run_has_id:
  "\<forall>a\<in>set (appointments st). id_of a \<noteq> None \<Longrightarrow>
   \<forall>a\<in>set (appointments (run parse st rs)). id_of a \<noteq> None"
proof (induction rs arbitrary: st)
  case Nil
  then show ?case by simp
next
  case (Cons p rs)
  obtain e r where p: "p = (e, r)" by (cases p)
  have "\<forall>a\<in>set (appointments (snd (handle parse e st r))). id_of a \<noteq> None"
    using Cons.prems by (rule handle_has_id)
  then show ?case
    using Cons.IH [of "snd (handle parse e st r)"] by (simp add: p)
qed

lemma filter_split_length:
  "length (filter (\<lambda>a. f a \<noteq> y) xs) + length (filter (\<lambda>a. f a = y) xs) = length xs"
  by (induction xs) auto

text \<open>
  Claim C6, amended. In every state reached from startup by a sequence of requests:
  deleting an id that no record has answers 404 "Appointment not found" and leaves the state
  (collection and files) as it was. Deleting an id that some record has removes every
  record with that id, at least one, and exactly one when the ids of the collection are
  distinct; the id is no longer in the collection nor in any list that a following GET
  returns; the handler answers 200 when the save that follows the removal returns, and
  raises what that save raises otherwise; deleting the same id once more answers 404 and
  changes nothing.
\<close>

theorem delete_by_id:
  assumes "st = run parse (snd (load_excel cell_read e0 st0)) rs"
    and "appt_id = (case data ''id'' of None \<Rightarrow> PNone | Some v \<Rightarrow> v)"
    and "kept = filter (\<lambda>a. id_of a \<noteq> Some appt_id) (appointments st)"
    and "st' = snd (api_delete e st data)"
  shows "(Some appt_id \<notin> id_of ` set (appointments st) \<longrightarrow>
            api_delete e st data =
              (Returned (Response 404 (JError ''Appointment not found'')), st))
       \<and> (Some appt_id \<in> id_of ` set (appointments st) \<longrightarrow>
            api_delete e st data =
              (case fst (save_excel e (st\<lparr>appointments := kept\<rparr>)) of
                 Raised x \<Rightarrow> Raised x
               | Returned u \<Rightarrow> Returned (Response 200 JOk),
               snd (save_excel e (st\<lparr>appointments := kept\<rparr>)))
            \<and> appointments st' = kept
            \<and> length kept < length (appointments st)
            \<and> length kept + length (filter (\<lambda>a. id_of a = Some appt_id) (appointments st))
                = length (appointments st)
            \<and> (distinct (map id_of (appointments st))
                 \<longrightarrow> length kept + 1 = length (appointments st))
            \<and> Some appt_id \<notin> id_of ` set (appointments st')
            \<and> (\<forall>L. fst (api_get st') = Returned (Response 200 (JAppointments L))
                   \<longrightarrow> Some appt_id \<notin> id_of ` set L)
            \<and> api_delete e' st' data =
                (Returned (Response 404 (JError ''Appointment not found'')), st'))"
proof (intro conjI impI)
  have i: "\<forall>a\<in>set (appointments st). id_of a \<noteq> None"
    unfolding assms(1) by (intro run_has_id load_excel_has_id)
  {
    assume "Some appt_id \<notin> id_of ` set (appointments st)"
    then show "api_delete e st data =
                (Returned (Response 404 (JError ''Appointment not found'')), st)"
      using assms(2) i by (simp add: api_delete_absent [where i = appt_id])
  }
  let ?st1 = "st\<lparr>appointments := kept\<rparr>"
  assume h: "Some appt_id \<in> id_of ` set (appointments st)"
  have s: "length kept + length (filter (\<lambda>a. id_of a = Some appt_id) (appointments st))
             = length (appointments st)"
    unfolding assms(3) by (rule filter_split_length)
  have "filter (\<lambda>a. id_of a = Some appt_id) (appointments st) \<noteq> []"
    using h by (auto simp: filter_empty_conv)
  then have n: "length kept < length (appointments st)"
    using s by (cases "filter (\<lambda>a. id_of a = Some appt_id) (appointments st)") auto
  then have "length (filter (\<lambda>a. id_of a \<noteq> Some appt_id) (appointments st))
               \<noteq> length (appointments st)"
    unfolding assms(3) by simp
  then have d: "api_delete e st data =
     (case fst (save_excel e ?st1) of
        Raised x \<Rightarrow> Raised x
      | Returned u \<Rightarrow> Returned (Response 200 JOk),
      snd (save_excel e ?st1))"
    using assms(2) i unfolding assms(3) by (simp add: api_delete_present)
  show "api_delete e st data =
     (case fst (save_excel e ?st1) of
        Raised x \<Rightarrow> Raised x
      | Returned u \<Rightarrow> Returned (Response 200 JOk),
      snd (save_excel e ?st1))"
    by (rule d)
  show k: "appointments st' = kept"
    unfolding assms(4) d by (simp add: save_excel_appointments)
  show "length kept < length (appointments st)"
    by (rule n)
  show "length kept + length (filter (\<lambda>a. id_of a = Some appt_id) (appointments st))
          = length (appointments st)"
    by (rule s)
  show "length kept + 1 = length (appointments st)"
    if "distinct (map id_of (appointments st))"
    using that h filter_one_out [of id_of "appointments st" "Some appt_id"]
    unfolding assms(3) by simp
  show a: "Some appt_id \<notin> id_of ` set (appointments st')"
    unfolding k assms(3) by auto
  show "\<forall>L. fst (api_get st') = Returned (Response 200 (JAppointments L))
                   \<longrightarrow> Some appt_id \<notin> id_of ` set L"
  proof (intro allI impI)
    fix L
    assume "fst (api_get st') = Returned (Response 200 (JAppointments L))"
    then have "sorted_by_datetime (appointments st') = Inr L"
      by (simp add: api_get_def split: sum.splits)
    then have "set L = set (appointments st')"
      by (metis sorted_by_datetime_mset mset_eq_setD)
    with a show "Some appt_id \<notin> id_of ` set L" by simp
  qed
  have "\<forall>a\<in>set (appointments st'). id_of a \<noteq> None"
    unfolding k assms(3) using i by simp
  then show "api_delete e' st' data =
                (Returned (Response 404 (JError ''Appointment not found'')), st')"
    using a assms(2) by (simp add: api_delete_absent [where i = appt_id])
qed

lemmas delete_eval =
  api_delete_def getitem_def id_of_def demo_eval save_eval load_excel_def blank_as_none_def
  demo_row_def

theorem delete_by_id_witness:
  "api_delete (demo_env ''u7'') (run iso_core (snd (load_excel blank_as_none (demo_env ''boot'')
        twin_disk)) []) [''id'' \<mapsto> PStr ''zz'']
     = (Returned (Response 404 (JError ''Appointment not found'')),
        run iso_core (snd (load_excel blank_as_none (demo_env ''boot'') twin_disk)) [])
   \<and> fst (api_delete (demo_env ''u7'') (run iso_core (snd (load_excel blank_as_none
        (demo_env ''boot'') twin_disk)) []) [''id'' \<mapsto> PStr ''a2''])
     = Returned (Response 200 JOk)
   \<and> length (appointments (snd (api_delete (demo_env ''u7'') (run iso_core (snd (load_excel
        blank_as_none (demo_env ''boot'') twin_disk)) []) [''id'' \<mapsto> PStr ''a2''])))
     = 2"
proof -
  let ?st = "run iso_core (snd (load_excel blank_as_none (demo_env ''boot'') twin_disk)) []"
  have l: "appointments ?st
             = [zip HEADERS (demo_row ''a1'' ''2024-01-01T09:00''),
                zip HEADERS (demo_row ''a1'' ''2024-01-03T15:30''),
                zip HEADERS (demo_row ''a2'' ''2024-01-02T11:00'')]"
    by (simp add: twin_disk_def delete_eval)
  have q: "Some (PStr ''zz'') \<notin> id_of ` set (appointments ?st)"
    and p: "Some (PStr ''a2'') \<in> id_of ` set (appointments ?st)"
    unfolding l by (simp_all add: id_of_def HEADERS_def demo_row_def)
  have s: "fst (save_excel (demo_env ''u7'')
             (?st\<lparr>appointments :=
                 filter (\<lambda>a. id_of a \<noteq> Some (PStr ''a2'')) (appointments ?st)\<rparr>))
             = Returned ()"
    by (simp add: twin_disk_def delete_eval)
  have n: "length (filter (\<lambda>a. id_of a \<noteq> Some (PStr ''a2'')) (appointments ?st)) = 2"
    unfolding l by (simp add: id_of_def HEADERS_def demo_row_def)
  have z: "PStr ''zz'' = (case [''id'' \<mapsto> PStr ''zz''] ''id'' of None \<Rightarrow> PNone | Some v \<Rightarrow> v)"
    and y: "PStr ''a2'' = (case [''id'' \<mapsto> PStr ''a2''] ''id'' of None \<Rightarrow> PNone | Some v \<Rightarrow> v)"
    by simp_all
  note absent = delete_by_id [where data = "[''id'' \<mapsto> PStr ''zz'']"
      and appt_id = "PStr ''zz''" and st = ?st and e = "demo_env ''u7''" and parse = iso_core
      and cell_read = blank_as_none and ?e0.0 = "demo_env ''boot''" and ?st0.0 = twin_disk
      and rs = "[]", OF refl z refl refl, THEN conjunct1, THEN mp, OF q]
  note present = delete_by_id [where data = "[''id'' \<mapsto> PStr ''a2'']"
      and appt_id = "PStr ''a2''" and st = ?st and e = "demo_env ''u7''" and parse = iso_core
      and cell_read = blank_as_none and ?e0.0 = "demo_env ''boot''" and ?st0.0 = twin_disk
      and rs = "[]", OF refl y refl refl, THEN conjunct2, THEN mp, OF p]
  have "fst (api_delete (demo_env ''u7'') ?st [''id'' \<mapsto> PStr ''a2''])
          = Returned (Response 200 JOk)"
    using present [THEN conjunct1] s by simp
  moreover have "length (appointments (snd (api_delete (demo_env ''u7'') ?st
                    [''id'' \<mapsto> PStr ''a2'']))) = 2"
    using present [THEN conjunct2, THEN conjunct1] n by simp
  ultimately show ?thesis
    using absent by simp
qed

text \<open>
  The claim as stated fails where two records carry the same id, as a ledger edited by hand
  can have it, since \<^verbatim>\<open>load_excel\<close> checks no identifiers: one DELETE removes both.
\<close>

theorem repeated_id_counterexample:
  "length (appointments (snd (load_excel blank_as_none (demo_env ''boot'') twin_disk))) = 3
   \<and> fst (api_delete (demo_env ''u7'') (snd (load_excel blank_as_none (demo_env ''boot'')
        twin_disk)) [''id'' \<mapsto> PStr ''a1''])
     = Returned (Response 200 JOk)
   \<and> length (appointments (snd (api_delete (demo_env ''u7'') (snd (load_excel blank_as_none
        (demo_env ''boot'') twin_disk)) [''id'' \<mapsto> PStr ''a1''])))
     = 1"
  by (simp add: twin_disk_def delete_eval)

section \<open>The listing is sorted and stable\<close>

lemma insort_decorated:
  "insort_key fst (k x, x) (map (\<lambda>y. (k y, y)) ys) = map (\<lambda>y. (k y, y)) (insort_key k x ys)"
  by (induction ys) simp_all

lemma sort_decorated:
  "sort_key fst (map (\<lambda>y. (k y, y)) xs) = map (\<lambda>y. (k y, y)) (sort_key k xs)"
  by (induction xs) (simp_all add: insort_decorated)

lemma zip_keys: "zip (map k xs) xs = map (\<lambda>y. (k y, y)) xs"
  by (induction xs) simp_all

lemma undecorate: "map snd (sort_key fst (zip (map k xs) xs)) = sort_key k xs"
  by (simp add: zip_keys sort_decorated comp_def)

lemma datetime_keys_text:
  "\<forall>a\<in>set as. has_text_datetime a \<Longrightarrow>
   datetime_keys as = Inr (map (\<lambda>a. PStr (datetime_text a)) as)"
  by (induction as)
     (auto simp: has_text_datetime_def datetime_text_def getitem_def
           split: option.splits pyval.splits)

lemma str_keys_text: "str_keys (map (\<lambda>a. PStr (f a)) as) = Some (map f as)"
  by (induction as) simp_all

lemma short_sorted: "length xs < 2 \<Longrightarrow> sort_key k xs = xs"
  by (cases xs rule: list.exhaust; cases "tl xs") auto

lemma sorted_by_datetime_text:
  assumes "\<forall>a\<in>set as. has_text_datetime a"
  shows "sorted_by_datetime as = Inr (sort_key datetime_text as)"
  using datetime_keys_text [OF assms]
  by (simp add: sorted_by_datetime_def str_keys_text undecorate short_sorted)

lemma has_text_new_appt: "has_text_datetime (new_appt e n a r dt)"
  by (simp add: has_text_datetime_def new_appt_def)

lemma api_post_text_datetime:
  assumes "\<forall>a\<in>set (appointments st). has_text_datetime a"
  shows "\<forall>a\<in>set (appointments (snd (api_post parse e st data))). has_text_datetime a"
  using assms api_post_appointments [of parse e st data]
  by (auto simp: has_text_new_appt)

lemma run_posts_text_datetime:
  "\<forall>a\<in>set (appointments st). has_text_datetime a \<Longrightarrow>
   \<forall>a\<in>set (appointments (run parse st (map (\<lambda>(e, data). (e, POST data)) posts))).
      has_text_datetime a"
proof (induction posts arbitrary: st)
  case Nil
  then show ?case by simp
next
  case (Cons p posts)
  obtain e data where p: "p = (e, data)" by (cases p)
  have "\<forall>a\<in>set (appointments (snd (api_post parse e st data))). has_text_datetime a"
    using Cons.prems by (rule api_post_text_datetime)
  then show ?case
    using Cons.IH [of "snd (api_post parse e st data)"] by (simp add: p)
qed

text \<open>
  Claim C7. In every state reached from the empty collection by a sequence of POST requests
  (whatever each of them answers), every record has a text \<open>datetime\<close>, and GET returns, with
  status 200 and without changing the state, the records sorted in ascending order of that
  text (compared character by character), records with equal \<open>datetime\<close> keeping their
  order of insertion; the list is a rearrangement of the collection, empty when the
  collection is.
\<close>

theorem list_sorted_stable:
  assumes "appointments st0 = []"
    and "st = run parse st0 (map (\<lambda>(e, data). (e, POST data)) posts)"
    and "L = sort_key datetime_text (appointments st)"
  shows "api_get st = (Returned (Response 200 (JAppointments L)), st)
       \<and> sorted (map datetime_text L)
       \<and> mset L = mset (appointments st)
       \<and> (\<forall>k. filter (\<lambda>a. datetime_text a = k) L
              = filter (\<lambda>a. datetime_text a = k) (appointments st))
       \<and> (\<forall>a\<in>set (appointments st). map_of a ''datetime'' = Some (PStr (datetime_text a)))"
proof -
  have t: "\<forall>a\<in>set (appointments st). has_text_datetime a"
    unfolding assms(2) using assms(1) by (intro run_posts_text_datetime) simp
  have "api_get st = (Returned (Response 200 (JAppointments L)), st)"
    using sorted_by_datetime_text [OF t] by (simp add: api_get_def assms(3))
  moreover have "sorted (map datetime_text L)"
    unfolding assms(3) by (rule sorted_sort_key)
  moreover have "mset L = mset (appointments st)"
    unfolding assms(3) by simp
  moreover have "\<forall>k. filter (\<lambda>a. datetime_text a = k) L
              = filter (\<lambda>a. datetime_text a = k) (appointments st)"
    unfolding assms(3) by (simp add: sort_key_stable)
  moreover have "\<forall>a\<in>set (appointments st). map_of a ''datetime'' = Some (PStr (datetime_text a))"
    using t by (auto simp: has_text_datetime_def datetime_text_def split: option.splits pyval.splits)
  ultimately show ?thesis by blast
qed

lemma demo_posts_run:
  "appointments (run iso_core demo_start (map (\<lambda>(e, data). (e, POST data)) demo_posts))
     = [new_appt (demo_env ''u1'') ''Ann'' [] [] ''2024-01-01T10:05'',
        new_appt (demo_env ''u2'') ''Bob'' [] [] ''2024-01-01T09:15'',
        new_appt (demo_env ''u3'') ''Cy'' [] [] ''2024-01-01T10:05'']"
  by (simp add: demo_posts_def api_post_def get_strip_def post_fields_def fromisoformat_def
        count_in_hour_def demo_start_def save_eval demo_eval iso_core_eval MAX_PER_HOUR_def)

theorem list_sorted_stable_witness:
  "fst (api_get (run iso_core demo_start (map (\<lambda>(e, data). (e, POST data)) demo_posts)))
     = Returned (Response 200 (JAppointments
         [new_appt (demo_env ''u2'') ''Bob'' [] [] ''2024-01-01T09:15'',
          new_appt (demo_env ''u1'') ''Ann'' [] [] ''2024-01-01T10:05'',
          new_appt (demo_env ''u3'') ''Cy'' [] [] ''2024-01-01T10:05'']))
   \<and> snd (api_get (run iso_core demo_start (map (\<lambda>(e, data). (e, POST data)) demo_posts)))
     = run iso_core demo_start (map (\<lambda>(e, data). (e, POST data)) demo_posts)"
  using list_sorted_stable [of demo_start
          "run iso_core demo_start (map (\<lambda>(e, data). (e, POST data)) demo_posts)"
          iso_core demo_posts, OF _ refl refl]
  by (simp add: demo_posts_run) (simp add: demo_start_def new_appt_def datetime_text_def)

section \<open>The scenario of the specification\<close>

text \<open>
  Run on the scenario of the specification, the model keeps the four inserts of the first
  hour, rejects the fifth, accepts the one of the next hour, and the delete removes \<open>u2\<close>.
\<close>

lemma scenario_run:
  "map id_of (appointments (run iso_core demo_start demo_requests))
     = [Some (PStr ''u1''), Some (PStr ''u3''), Some (PStr ''u4''), Some (PStr ''u6'')]"
  by (simp add: demo_requests_def api_post_def get_strip_def post_fields_def fromisoformat_def
        count_in_hour_def demo_start_def save_eval demo_eval iso_core_eval MAX_PER_HOUR_def
        api_delete_def api_get_state id_of_def)

end
